theory Spec2Isabelle
  imports Complex_Main "HOL-Library.Sublist" "HOL-Library.Multiset"
begin

section \<open>The document tree and its repair (src/utilities/jsx.ts)\<close>

text \<open>
  An \<open>AstNode\<close> of the source is an object \<open>{ component, style, props, children }\<close> whose
  children are strings or further nodes. The component is a function object that carries
  three static fields the repair reads: \<open>type\<close>, \<open>children\<close> (the accepted type names) and
  \<open>mixed\<close>. The fields \<open>style\<close> and \<open>props\<close> are never inspected by the repair and are
  copied as they are by the object spread \<open>{...node}\<close>, so they are one opaque value \<open>'p\<close>.

  The datatype is a tree: no node object occurs twice in it. The source mutates arrays in
  place and finds a node by \<open>nodes.indexOf(node)\<close>; on a tree that index is the loop index
  \<open>y\<close>, and the functional model below returns the new contents of the array it was given.
\<close>

record AstComponent =
  type_name :: string
  children_names :: "string list"
  mixed :: bool

datatype 'p AstNode = Str string | Node AstComponent 'p "'p AstNode list"

text \<open>
  The test of the inner loop,
  \<^verbatim>\<open>(typeof child === 'string' && node.component.mixed) ||
  (typeof child !== 'string' && node.component.children.includes(child.component.type))\<close>.
\<close>

fun valid_child :: "AstComponent \<Rightarrow> 'p AstNode \<Rightarrow> bool" where
  "valid_child c (Str s) = mixed c"
| "valid_child c (Node c' p ch) = (type_name c' \<in> set (children_names c))"

text \<open>
  The inner loop \<^verbatim>\<open>for (let i = 0; i < node.children.length; i++)\<close> steps over valid
  children. At the first invalid child it removes that child (\<open>splice(i, 1)\<close>) and all
  children after it (\<open>splice(i, length - i)\<close>), which leaves \<open>i\<close> children, so the loop ends
  there. \<open>split_invalid\<close> returns \<open>None\<close> when the loop finds no invalid child, and
  otherwise the children that stay, the invalid child and the children after it.
\<close>

fun split_invalid ::
  "AstComponent \<Rightarrow> 'p AstNode list \<Rightarrow> ('p AstNode list \<times> 'p AstNode \<times> 'p AstNode list) option" where
  "split_invalid c [] = None"
| "split_invalid c (x # xs) =
     (if valid_child c x
      then (case split_invalid c xs of
              None \<Rightarrow> None
            | Some (pre, bad, post) \<Rightarrow> Some (x # pre, bad, post))
      else Some ([], x, xs))"

text \<open>The measure of the termination proof: a node weighs more than twice its children.\<close>

fun weight :: "'p AstNode \<Rightarrow> nat" where
  "weight (Str s) = 1"
| "weight (Node c p ch) = 1 + 2 * sum_list (map weight ch)"

abbreviation weights :: "'p AstNode list \<Rightarrow> nat" where
  "weights xs \<equiv> sum_list (map weight xs)"

text \<open>
  The inner function \<open>walk(nodes)\<close>. The loop over \<open>y\<close> reads \<open>nodes.length\<close> anew in every
  round, so the two elements spliced in behind \<open>nodes[y]\<close> (the invalid child and the clone
  \<open>{...node, children: <the children after it>}\<close>) are the next two elements it visits.
  A string is skipped; for a node, \<open>walk(node.children)\<close> runs first, then the inner loop.
\<close>

function walk :: "'p AstNode list \<Rightarrow> 'p AstNode list" where
  "walk [] = []"
| "walk (Str s # rest) = Str s # walk rest"
| "walk (Node c p ch # rest) =
     (case split_invalid c (walk ch) of
        None \<Rightarrow> Node c p (walk ch) # walk rest
      | Some (pre, bad, post) \<Rightarrow> Node c p pre # walk (bad # Node c p post # rest))"
  by pat_completeness auto

lemma weight_pos: "0 < weight x"
  by (cases x) auto

lemma split_invalid_Some:
  "split_invalid c ys = Some (pre, bad, post) \<Longrightarrow>
     ys = pre @ bad # post \<and> \<not> valid_child c bad \<and> list_all (valid_child c) pre"
  by (induction ys arbitrary: pre) (auto split: if_splits option.splits)

lemma split_invalid_None: "split_invalid c ys = None \<Longrightarrow> list_all (valid_child c) ys"
  by (induction ys) (auto split: if_splits option.splits)

lemma walk_weights: "walk_dom xs \<Longrightarrow> weights (walk xs) \<le> weights xs"
proof (induction xs rule: walk.pinduct)
  case 1
  then show ?case by (simp add: walk.psimps)
next
  case (2 s rest)
  then show ?case by (simp add: walk.psimps)
next
  case (3 c p ch rest)
  show ?case
  proof (cases "split_invalid c (walk ch)")
    case None
    with 3 show ?thesis by (simp add: walk.psimps)
  next
    case (Some t)
    obtain pre bad post where t: "t = (pre, bad, post)" by (cases t) auto
    from Some t have eq: "walk ch = pre @ bad # post"
      using split_invalid_Some by blast
    from 3(2) eq have le: "weights pre + weight bad + weights post \<le> weights ch" by simp
    from 3(5)[OF Some[unfolded t] refl refl]
    have "weights (walk (bad # Node c p post # rest))
            \<le> weight bad + (1 + 2 * weights post) + weights rest"
      by simp
    with le weight_pos[of bad] Some t 3(1) show ?thesis
      by (simp add: walk.psimps)
  qed
qed

termination walk
proof (relation "measure weights", goal_cases)
  case (6 c p ch rest t pre r bad post)
  from 6 have dom: "walk_dom ch" by simp
  from 6 have eq: "walk ch = pre @ bad # post"
    using split_invalid_Some by blast
  from walk_weights[OF dom] eq
  have "weights pre + weight bad + weights post \<le> weights ch" by simp
  with weight_pos[of bad] show ?case by simp
qed simp_all

text \<open>
  \<open>bumpInvalidChildrenToAncestry(node)\<close>: the walk starts on the one-element array
  \<open>[node]\<close>; the function throws \<^verbatim>\<open>Error('DXE030: Some AST nodes could not be given a valid
  position.')\<close> unless that array still has exactly one element.
\<close>

datatype repair_error = DXE030

definition bumpInvalidChildrenToAncestry :: "'p AstNode \<Rightarrow> repair_error + 'p AstNode" where
  "bumpInvalidChildrenToAncestry node =
     (let documentElements = walk [node]
      in if length documentElements \<noteq> 1 then Inl DXE030 else Inr (documentElements ! 0))"

text \<open>
  The accepted-children invariant of the spec, on a whole tree: every child of every node
  passes the test of the inner loop against the node's component.
\<close>

fun valid_tree :: "'p AstNode \<Rightarrow> bool" where
  "valid_tree (Str s) = True"
| "valid_tree (Node c p ch) = list_all (\<lambda>x. valid_child c x \<and> valid_tree x) ch"





text \<open>A small document model for the concrete runs below.\<close>

definition DocumentC :: AstComponent where
  "DocumentC = \<lparr>type_name = ''Document'', children_names = [''Paragraph'', ''Table''], mixed = False\<rparr>"

definition ParagraphC :: AstComponent where
  "ParagraphC = \<lparr>type_name = ''Paragraph'', children_names = [''Text''], mixed = False\<rparr>"

definition TableC :: AstComponent where
  "TableC = \<lparr>type_name = ''Table'', children_names = [], mixed = False\<rparr>"

definition TextC :: AstComponent where
  "TextC = \<lparr>type_name = ''Text'', children_names = [], mixed = True\<rparr>"

definition example_tree :: "unit AstNode" where
  "example_tree =
     Node DocumentC () [Node ParagraphC ()
       [Node TextC () [Str ''a''], Node TableC () [], Node TextC () [Str ''b'']]]"

definition example_repaired :: "unit AstNode" where
  "example_repaired =
     Node DocumentC ()
       [Node ParagraphC () [Node TextC () [Str ''a'']],
        Node TableC () [],
        Node ParagraphC () [Node TextC () [Str ''b'']]]"

definition stranded_tree :: "unit AstNode" where
  "stranded_tree = Node ParagraphC () [Node TextC () [Str ''a''], Node TableC () []]"



section \<open>Flattening asynchronous children (src/utilities/jsx.ts)\<close>

text \<open>
  JavaScript values as far as the code tells them apart: \<open>filter(Boolean)\<close> keeps the
  truthy ones. A number is \<open>NaN\<close> or a value; an object is its list of fields. An
  \<open>AstNode\<close> handed to the JSX pragma is an \<open>Object\<close> here.
\<close>

datatype number = NaN | Num real

datatype jsval =
    Undefined
  | Null
  | Boolean bool
  | Number number
  | String string
  | Object "(string \<times> jsval) list"

text \<open>\<open>Boolean(v)\<close>.\<close>

fun truthy :: "jsval \<Rightarrow> bool" where
  "truthy Undefined = False"
| "truthy Null = False"
| "truthy (Boolean b) = b"
| "truthy (Number NaN) = False"
| "truthy (Number (Num x)) = (x \<noteq> 0)"
| "truthy (String s) = (s \<noteq> [])"
| "truthy (Object fs) = True"

text \<open>
  What \<open>ensureFlatResolvedArray\<close> is given: a value, an array of such things, or a promise
  of such a thing. A promise carries the moment it settles (a number, smaller is earlier),
  and is either fulfilled with a child or rejected with a reason. \<open>await\<close> on a fulfilled
  promise gives its value whenever it settles, and throws the reason of a rejected one.
  The two functions share no mutable state (every step builds a new array), so the value
  of each \<open>await\<close> is all that a later step can see of an earlier one.
\<close>

datatype child =
    Item jsval
  | Array "child list"
  | Fulfilled nat child
  | Rejected nat jsval

text \<open>
  \<open>recursiveFlattenArray(flat, item)\<close>, the reducer. \<open>flat\<close> is a promise: \<open>Inr\<close> an
  array when fulfilled, \<open>Inl\<close> the reason when rejected. \<open>await item\<close> comes first, then
  \<open>await flat\<close>; \<open>Array.prototype.reduce\<close> is \<open>foldl\<close>.
\<close>

fun recursiveFlattenArray :: "jsval + jsval list \<Rightarrow> child \<Rightarrow> jsval + jsval list" where
  "recursiveFlattenArray flat (Rejected t reason) = Inl reason"
| "recursiveFlattenArray flat (Fulfilled t iitem) = recursiveFlattenArray flat iitem"
| "recursiveFlattenArray flat (Item iitem) =
     (case flat of
        Inl reason \<Rightarrow> Inl reason
      | Inr xs \<Rightarrow> Inr (filter truthy (xs @ [iitem])))"
| "recursiveFlattenArray flat (Array iitem) =
     (case flat of
        Inl reason \<Rightarrow> Inl reason
      | Inr xs \<Rightarrow>
         (case foldl recursiveFlattenArray (Inr []) iitem of
            Inl reason \<Rightarrow> Inl reason
          | Inr ys \<Rightarrow> Inr (xs @ ys)))"

text \<open>
  \<open>ensureFlatResolvedArray(children)\<close>: \<open>[children]\<close> without an \<open>undefined\<close> or \<open>null\<close>,
  reduced from \<open>Promise.resolve([])\<close>.
\<close>

definition ensureFlatResolvedArray :: "child \<Rightarrow> jsval + jsval list" where
  "ensureFlatResolvedArray children =
     foldl recursiveFlattenArray (Inr [])
       (filter (\<lambda>item. item \<noteq> Item Undefined \<and> item \<noteq> Item Null) [children])"

text \<open>
  The spec's side of the comparison: the children in the order they are declared, arrays
  and promises opened up, settle times not read.
\<close>

fun declared :: "child \<Rightarrow> jsval list" where
  "declared (Item v) = [v]"
| "declared (Array items) = concat (map declared items)"
| "declared (Fulfilled t c) = declared c"
| "declared (Rejected t reason) = []"

fun no_rejection :: "child \<Rightarrow> bool" where
  "no_rejection (Item v) = True"
| "no_rejection (Array items) = list_all no_rejection items"
| "no_rejection (Fulfilled t c) = no_rejection c"
| "no_rejection (Rejected t reason) = False"

text \<open>The same children with other settle times.\<close>

fun retime :: "(nat \<Rightarrow> nat) \<Rightarrow> child \<Rightarrow> child" where
  "retime f (Item v) = Item v"
| "retime f (Array items) = Array (map (retime f) items)"
| "retime f (Fulfilled t c) = Fulfilled (f t) (retime f c)"
| "retime f (Rejected t reason) = Rejected (f t) reason"

definition example_children :: child where
  "example_children =
     Array [Item (String ''a''),
            Fulfilled 5 (Array [Item (Number (Num 0)), Fulfilled 9 (Item (String ''b''))]),
            Fulfilled 1 (Item (Boolean False)),
            Array [Item Null, Item (String []), Item Undefined],
            Item (Number (Num 3))]"

section \<open>XML nodes and the queries the components use\<close>

text \<open>
  The DOM as far as the components read and write it: an element has a qualified name,
  attributes and child nodes. The templates and queries name elements through \<open>QNS.w\<close>
  (utilities/namespaces.ts, not at hand) and \<open>matchesNode\<close> compares \<open>node.nodeName\<close> with
  \<open>'w:ins'\<close>, \<open>'w:p'\<close>; both are the same name here, written with the prefix \<open>w:\<close>.
\<close>

datatype xml = Element string "(string \<times> string) list" "xml list" | TextNode string

fun nodeName :: "xml \<Rightarrow> string" where
  "nodeName (Element n as cs) = n"
| "nodeName (TextNode s) = ''#text''"

fun childNodes :: "xml \<Rightarrow> xml list" where
  "childNodes (Element n as cs) = cs"
| "childNodes (TextNode s) = []"

fun attributes :: "xml \<Rightarrow> (string \<times> string) list" where
  "attributes (Element n as cs) = as"
| "attributes (TextNode s) = []"

fun is_element :: "xml \<Rightarrow> bool" where
  "is_element (Element n as cs) = True"
| "is_element (TextNode s) = False"

text \<open>
  The XPath step \<open>./(a | b | ...)\<close>: the child elements with one of the names, in document
  order. \<open>./w:r\<close> is the step with one name.
\<close>

definition xpath_children :: "string list \<Rightarrow> xml \<Rightarrow> xml list" where
  "xpath_children names node =
     filter (\<lambda>n. is_element n \<and> nodeName n \<in> set names) (childNodes node)"

text \<open>The XPath step \<open>./@name\<close>, as the attribute's string values.\<close>

definition xpath_attribute :: "string \<Rightarrow> xml \<Rightarrow> string list" where
  "xpath_attribute name node = map snd (filter (\<lambda>kv. fst kv = name) (attributes node))"

section \<open>Components: TextAddition and Paragraph\<close>

text \<open>
  \<open>ChangeInformation\<close> (utilities/changes.ts) as \<open>TextAddition.toNode\<close> uses it: \<open>$id\<close>,
  \<open>$author\<close> and \<open>date.toISOString()\<close>. A \<open>Date\<close> is its time value in milliseconds.
\<close>

record ChangeInformation =
  id_attr :: string
  author :: string
  date :: int

text \<open>
  The children a \<open>TextAddition\<close> accepts (\<open>TextAdditionChild = Text | TextAddition |
  TextDeletion\<close>). Text.ts and TextDeletion.ts are not at hand: what such a component holds
  is a type parameter, and what its class does is a field of \<open>externals\<close>.
\<close>

datatype ('t, 'd) component =
    Text 't
  | TextAddition ChangeInformation "('t, 'd) component list"
  | TextDeletion 'd

datatype decode_error =
    NoMatchingTypeError
  | MalformedChangeMetadataError
  | ExternalError string

record ('t, 'd) externals =
  Text_toNode :: "'t \<Rightarrow> ('t, 'd) component list \<Rightarrow> xml"
  Text_matchesNode :: "xml \<Rightarrow> bool"
  Text_fromNode :: "xml \<Rightarrow> decode_error + 't"
  TextDeletion_toNode :: "'d \<Rightarrow> ('t, 'd) component list \<Rightarrow> xml"
  TextDeletion_matchesNode :: "xml \<Rightarrow> bool"
  TextDeletion_fromNode :: "xml \<Rightarrow> decode_error + 'd"
  toISOString :: "int \<Rightarrow> string"
  getChangeInformation :: "xml \<Rightarrow> decode_error + ChangeInformation"

text \<open>
  \<open>TextAddition.toNode(ancestry)\<close>: the element \<open>w:ins\<close> with the three attributes in the
  template's order and \<open>$children\<close>, which is \<open>this.childrenToNode(ancestry)\<close>, as its
  content.
\<close>

text \<open>
  Modelled from the spec: \<open>Component.childrenToNode\<close> (classes/Component.ts is missing)
  encodes each child in order and hands it the ancestry with this component in front,
  as section 4.1 says of \<open>encode(node, ancestry)\<close>. It is the \<open>map\<close> in the last
  equation; the rest of that equation is \<open>TextAddition.toNode\<close> from the source.
\<close>

fun toNode :: "('t, 'd) externals \<Rightarrow> ('t, 'd) component list \<Rightarrow> ('t, 'd) component \<Rightarrow> xml" where
  "toNode ext ancestry (Text t) = Text_toNode ext t ancestry"
| "toNode ext ancestry (TextDeletion d) = TextDeletion_toNode ext d ancestry"
| "toNode ext ancestry (TextAddition props children) =
     Element ''w:ins''
       [(''w:id'', id_attr props),
        (''w:author'', author props),
        (''w:date'', toISOString ext (date props))]
       (map (toNode ext (TextAddition props children # ancestry)) children)"

text \<open>
  \<^verbatim>\<open>public static readonly children: string[] = ['Text', this.name, 'TextDeletion']\<close>;
  in a static initialiser \<open>this.name\<close> is the class name.
\<close>

definition TextAddition_children :: "string list" where
  "TextAddition_children = [''Text'', ''TextAddition'', ''TextDeletion'']"

definition TextAddition_matchesNode :: "xml \<Rightarrow> bool" where
  "TextAddition_matchesNode node = (nodeName node = ''w:ins'')"

text \<open>
  Modelled from the spec: the registry (utilities/components.ts is missing) maps a type
  name to its class (section 4.1, \<open>lookupByName\<close>). This is \<open>matchesNode\<close> of the class
  registered under a name; no class is registered under any other name.
\<close>

definition matchesNode_byName :: "('t, 'd) externals \<Rightarrow> string \<Rightarrow> xml \<Rightarrow> bool" where
  "matchesNode_byName ext name node =
     (if name = ''Text'' then Text_matchesNode ext node
      else if name = ''TextAddition'' then TextAddition_matchesNode node
      else if name = ''TextDeletion'' then TextDeletion_matchesNode ext node
      else False)"

text \<open>
  \<open>TextAddition.fromNode(node)\<close>, the first equation below, is from the source: the props
  are \<open>getChangeInformation(node)\<close>, the children are what
  \<open>createChildComponentsFromNodes(this.children, evaluateXPathToNodes('./w:r', node))\<close>
  returns. It is defined together with the dispatcher, which calls it for a node that
  \<open>TextAddition.matchesNode\<close> accepts.
\<close>

text \<open>
  Modelled from the spec: \<open>createChildComponentsFromNodes\<close> (utilities/components.ts is
  missing) is section 4.1's \<open>dispatchDecode\<close> on every node in order: it goes through the
  given type names in order, the first whose \<open>matchesNode\<close> holds decodes the node, and
  it fails with \<open>NoMatchingTypeError\<close> when none does. \<open>fromNode_byName\<close> is the registry's
  \<open>fromNode\<close> of a name that matched. These are the equations of \<open>fromNode_byName\<close>,
  \<open>dispatchDecode\<close> and \<open>createChildComponentsFromNodes\<close>.
\<close>

function
  TextAddition_fromNode :: "('t, 'd) externals \<Rightarrow> xml \<Rightarrow> decode_error + ('t, 'd) component"
  and fromNode_byName ::
    "('t, 'd) externals \<Rightarrow> string \<Rightarrow> xml \<Rightarrow> decode_error + ('t, 'd) component"
  and dispatchDecode ::
    "('t, 'd) externals \<Rightarrow> string list \<Rightarrow> xml \<Rightarrow> decode_error + ('t, 'd) component"
  and createChildComponentsFromNodes ::
    "('t, 'd) externals \<Rightarrow> string list \<Rightarrow> xml list \<Rightarrow> decode_error + ('t, 'd) component list"
where
  "TextAddition_fromNode ext node =
     (case getChangeInformation ext node of
        Inl e \<Rightarrow> Inl e
      | Inr props \<Rightarrow>
         (case createChildComponentsFromNodes ext TextAddition_children
                 (xpath_children [''w:r''] node) of
            Inl e \<Rightarrow> Inl e
          | Inr children \<Rightarrow> Inr (TextAddition props children)))"
| "fromNode_byName ext name node =
     (if name = ''Text'' then map_sum (\<lambda>e. e) Text (Text_fromNode ext node)
      else if name = ''TextAddition'' then TextAddition_fromNode ext node
      else map_sum (\<lambda>e. e) TextDeletion (TextDeletion_fromNode ext node))"
| "dispatchDecode ext [] node = Inl NoMatchingTypeError"
| "dispatchDecode ext (name # names) node =
     (if matchesNode_byName ext name node then fromNode_byName ext name node
      else dispatchDecode ext names node)"
| "createChildComponentsFromNodes ext names [] = Inr []"
| "createChildComponentsFromNodes ext names (node # nodes) =
     (case dispatchDecode ext names node of
        Inl e \<Rightarrow> Inl e
      | Inr c \<Rightarrow>
         (case createChildComponentsFromNodes ext names nodes of
            Inl e \<Rightarrow> Inl e
          | Inr cs \<Rightarrow> Inr (c # cs)))"
  by pat_completeness auto

lemma size_xpath_children: "size_list size (xpath_children names node) \<le> size node"
proof (cases node)
  case (Element n as cs)
  have "size_list size (filter P cs) \<le> size_list size cs" for P
    by (induction cs) auto
  then show ?thesis using Element by (simp add: xpath_children_def le_SucI)
next
  case (TextNode s)
  then show ?thesis by (simp add: xpath_children_def)
qed

termination TextAddition_fromNode
  apply (relation "inv_image (measure (\<lambda>n. n) <*lex*> measure (\<lambda>n. n))
     (\<lambda>x. case x of
        Inl (Inl (ext, node)) \<Rightarrow> (size node, 1)
      | Inl (Inr (ext, name, node)) \<Rightarrow> (size node, 2)
      | Inr (Inl (ext, names, node)) \<Rightarrow> (size node, 3 + length names)
      | Inr (Inr (ext, names, nodes)) \<Rightarrow> (size_list size nodes, 0))")
        apply simp_all
   apply (rule wf_inv_image, rule wf_lex_prod, rule wf_measure, rule wf_measure)
  subgoal for ext node b
    using size_xpath_children[of "[''w:r'']" node] by linarith
  done

text \<open>
  \<open>Paragraph\<close>: \<open>children = ['Text', 'TextAddition', 'TextDeletion']\<close>, and \<open>matchesNode\<close>.
\<close>

definition Paragraph_children :: "string list" where
  "Paragraph_children = [''Text'', ''TextAddition'', ''TextDeletion'']"

definition Paragraph_matchesNode :: "xml \<Rightarrow> bool" where
  "Paragraph_matchesNode node = (nodeName node = ''w:p'')"


text \<open>The children of a decoded component (\<open>component.children\<close>).\<close>

fun children_of :: "('t, 'd) component \<Rightarrow> ('t, 'd) component list" where
  "children_of (TextAddition props children) = children"
| "children_of (Text t) = []"
| "children_of (TextDeletion d) = []"


text \<open>
  Stand-ins for the classes that are not at hand, for the concrete runs below: a \<open>Text\<close>
  is a run \<open>w:r\<close> around its text, a \<open>TextDeletion\<close> is \<open>w:del\<close> around its text, and the
  change information is read from the three attributes. The calendar of
  \<open>Date.toISOString\<close> and of the date parser is a table of the two instants the runs use.
\<close>

fun first_text :: "xml list \<Rightarrow> string" where
  "first_text [] = []"
| "first_text (TextNode s # rest) = s"
| "first_text (Element n as cs # rest) = first_text rest"

definition example_toISOString :: "int \<Rightarrow> string" where
  "example_toISOString d =
     (if d = 1577836800000 then ''2020-01-01T00:00:00.000Z'' else ''1970-01-01T00:00:00.000Z'')"

definition example_parseDate :: "string \<Rightarrow> int" where
  "example_parseDate s = (if s = ''2020-01-01T00:00:00.000Z'' then 1577836800000 else 0)"

definition example_getChangeInformation :: "xml \<Rightarrow> decode_error + ChangeInformation" where
  "example_getChangeInformation node =
     (case xpath_attribute ''w:id'' node of
        [] \<Rightarrow> Inl MalformedChangeMetadataError
      | i # is \<Rightarrow>
         (case xpath_attribute ''w:author'' node of
            [] \<Rightarrow> Inl MalformedChangeMetadataError
          | a # as \<Rightarrow>
             (case xpath_attribute ''w:date'' node of
                [] \<Rightarrow> Inl MalformedChangeMetadataError
              | d # ds \<Rightarrow> Inr \<lparr>id_attr = i, author = a, date = example_parseDate d\<rparr>)))"

definition example_externals :: "(string, string) externals" where
  "example_externals =
     \<lparr>Text_toNode = (\<lambda>t ancestry. Element ''w:r'' [] [TextNode t]),
      Text_matchesNode = (\<lambda>node. nodeName node = ''w:r''),
      Text_fromNode = (\<lambda>node. Inr (first_text (childNodes node))),
      TextDeletion_toNode = (\<lambda>d ancestry. Element ''w:del'' [] [TextNode d]),
      TextDeletion_matchesNode = (\<lambda>node. nodeName node = ''w:del''),
      TextDeletion_fromNode = (\<lambda>node. Inr (first_text (childNodes node))),
      toISOString = example_toISOString,
      getChangeInformation = example_getChangeInformation\<rparr>"

definition inner_addition :: "(string, string) component" where
  "inner_addition = TextAddition \<lparr>id_attr = ''2'', author = ''B'', date = 1577836800000\<rparr> []"

definition nested_addition :: "(string, string) component" where
  "nested_addition =
     TextAddition \<lparr>id_attr = ''1'', author = ''A'', date = 1577836800000\<rparr> [inner_addition]"


section \<open>The settings part (src/files/Settings.ts)\<close>

text \<open>
  A thrown \<open>Error\<close> as the \<open>catch\<close> block reads it: \<open>error.stack || error.message\<close>. The empty
  string stands for a stack that is absent.
\<close>

record js_error =
  stack :: string
  message :: string

datatype document = Document xml

text \<open>An archive is what \<open>archive.readXml(location)\<close> gives for each location.\<close>

record Archive =
  readXml :: "string \<Rightarrow> js_error + document"

text \<open>
  Modelled from the spec: the class \<open>Relationships\<close> (files/Relationships.ts is missing).
  By section 3 a relationship has an id, a type, a target and the mark of an external
  target, and a part owns a collection of them; the object also knows the location of
  its \<open>.rels\<close> file.
\<close>

record Relationship =
  rel_id :: string
  rel_type :: string
  target :: string
  isExternal :: bool

record Relationships =
  rels_location :: string
  meta :: "Relationship list"

text \<open>
  Modelled from the spec: the constructor \<open>new Relationships(location)\<close>
  (files/Relationships.ts is missing), called with a location and nothing else, builds
  the empty relationship set of sections 4.3 and 6 (an absent \<open>.rels\<close> file is an empty
  relationship set).
\<close>

definition new_Relationships :: "string \<Rightarrow> Relationships" where
  "new_Relationships loc = \<lparr>rels_location = loc, meta = []\<rparr>"

text \<open>
  What \<open>Settings\<close> imports and is not at hand: \<open>path.dirname\<close> and \<open>path.basename\<close> of the
  Deno standard library, \<open>Relationships.fromArchive\<close> (files/Relationships.ts), the XPath
  function \<open>ooxml:is-on-off-enabled\<close> on the attribute values it is given
  (utilities/xquery.ts), the constant \<open>ALL_NAMESPACE_DECLARATIONS\<close>, and what
  \<open>evaluateXPathToMap\<close> hands back when the path selects no \<open>w:settings\<close> element.
\<close>

record environment =
  dirname :: "string \<Rightarrow> string"
  basename :: "string \<Rightarrow> string"
  Relationships_fromArchive :: "Archive \<Rightarrow> string \<Rightarrow> js_error + Relationships"
  is_on_off_enabled :: "string list \<Rightarrow> bool"
  ALL_NAMESPACE_DECLARATIONS :: "(string \<times> string) list"
  evaluateXPathToMap_of_nothing :: "js_error + bool"

record Settings =
  location :: string
  relationships :: Relationships
  isTrackChangesEnabled :: bool

text \<open>
  \<open>Settings.toNode()\<close>: the element \<open>w:settings\<close> with the namespace declarations; its
  content is one empty element \<open>w:trackRevisions\<close> when the flag is set (the attribute
  \<open>w:val\<close> is inside an XQuery comment) and nothing otherwise.
\<close>

definition Settings_toNode :: "environment \<Rightarrow> Settings \<Rightarrow> document" where
  "Settings_toNode env this =
     Document (Element ''w:settings'' (ALL_NAMESPACE_DECLARATIONS env)
       (if isTrackChangesEnabled this then [Element ''w:trackRevisions'' [] []] else []))"

text \<open>
  The query of \<open>Settings.fromArchive\<close>,
  \<^verbatim>\<open>/w:settings/map { "isTrackChangesEnabled":
  ooxml:is-on-off-enabled(./w:trackChanges/@w:val) }\<close>.
\<close>

definition Settings_query :: "environment \<Rightarrow> document \<Rightarrow> js_error + bool" where
  "Settings_query env doc =
     (case doc of
        Document el \<Rightarrow>
          if is_element el \<and> nodeName el = ''w:settings''
          then Inr (is_on_off_enabled env
                 (concat (map (xpath_attribute ''w:val'')
                    (xpath_children [''w:trackChanges''] el))))
          else evaluateXPathToMap_of_nothing env)"

definition relationshipsLocation :: "environment \<Rightarrow> string \<Rightarrow> string" where
  "relationshipsLocation env loc = dirname env loc @ ''/_rels/'' @ basename env loc @ ''.rels''"

text \<open>
  \<open>Settings.fromArchive(archive, location)\<close>. The result is what was written with
  \<open>console.error\<close> and the outcome: \<open>Inl\<close> what was thrown, \<open>Inr\<close> the \<open>Settings\<close> object the
  constructor builds (\<open>Object.assign(this, settings)\<close> sets the flag). The \<open>catch\<close> block
  writes \<^verbatim>\<open>'Warning, relationships could not be resolved\n' + (error.stack ||
  error.message)\<close>; \<open>relationships || new Relationships(relationshipsLocation)\<close> is the
  object read, or the constructor's where nothing was read.
\<close>

definition Settings_fromArchive ::
  "environment \<Rightarrow> Archive \<Rightarrow> string \<Rightarrow> string list \<times> (js_error + Settings)" where
  "Settings_fromArchive env archive loc =
     (let relsLocation = relationshipsLocation env loc;
          attempt = Relationships_fromArchive env archive relsLocation;
          console =
            (case attempt of
               Inl error \<Rightarrow>
                 [''Warning, relationships could not be resolved'' @ [CHR 0x0A]
                    @ (if stack error \<noteq> [] then stack error else message error)]
             | Inr r \<Rightarrow> []);
          rels = (case attempt of Inl error \<Rightarrow> new_Relationships relsLocation | Inr r \<Rightarrow> r)
      in (console,
          case readXml archive loc of
            Inl error \<Rightarrow> Inl error
          | Inr doc \<Rightarrow>
             (case Settings_query env doc of
                Inl error \<Rightarrow> Inl error
              | Inr settings \<Rightarrow>
                  Inr \<lparr>location = loc, relationships = rels,
                       isTrackChangesEnabled = settings\<rparr>)))"

text \<open>
  Writing a settings part and reading it back: an archive that holds, at the part's
  location, the document \<open>toNode\<close> wrote.
\<close>

definition not_found :: js_error where
  "not_found = \<lparr>stack = [], message = ''file not found''\<rparr>"

definition archive_with :: "string \<Rightarrow> document \<Rightarrow> Archive" where
  "archive_with loc doc = \<lparr>readXml = (\<lambda>l. if l = loc then Inr doc else Inl not_found)\<rparr>"

definition Settings_roundtrip ::
  "environment \<Rightarrow> Settings \<Rightarrow> js_error + Settings" where
  "Settings_roundtrip env this =
     snd (Settings_fromArchive env
            (archive_with (location this) (Settings_toNode env this)) (location this))"

text \<open>
  Stand-ins for the concrete runs below: the two path functions on \<open>/\<close>-separated paths,
  a \<open>.rels\<close> file read through \<open>readXml\<close> (one \<open>Relationship\<close> for each child element of
  its root), and the on/off values of OOXML (\<open>on\<close>, \<open>true\<close>, \<open>1\<close>).
\<close>

definition example_Relationships_fromArchive ::
  "Archive \<Rightarrow> string \<Rightarrow> js_error + Relationships" where
  "example_Relationships_fromArchive archive l =
     (case readXml archive l of
        Inl error \<Rightarrow> Inl error
      | Inr doc \<Rightarrow>
          (case doc of
             Document el \<Rightarrow>
               Inr \<lparr>rels_location = l,
                    meta = map (\<lambda>r. \<lparr>rel_id = concat (xpath_attribute ''Id'' r),
                                    rel_type = concat (xpath_attribute ''Type'' r),
                                    target = concat (xpath_attribute ''Target'' r),
                                    isExternal = False\<rparr>)
                             (childNodes el)\<rparr>))"

definition example_environment :: environment where
  "example_environment =
     \<lparr>dirname = (\<lambda>p. rev (drop 1 (dropWhile (\<lambda>c. c \<noteq> CHR ''/'') (rev p)))),
      basename = (\<lambda>p. rev (takeWhile (\<lambda>c. c \<noteq> CHR ''/'') (rev p))),
      Relationships_fromArchive = example_Relationships_fromArchive,
      is_on_off_enabled = list_ex (\<lambda>v. v \<in> set [''on'', ''true'', ''1'']),
      ALL_NAMESPACE_DECLARATIONS = [(''xmlns:w'', ''w'')],
      evaluateXPathToMap_of_nothing = Inl \<lparr>stack = [], message = ''no map''\<rparr>\<rparr>"

definition enabled_settings :: Settings where
  "enabled_settings =
     \<lparr>location = ''word/settings.xml'',
      relationships = new_Relationships ''word/_rels/settings.xml.rels'',
      isTrackChangesEnabled = True\<rparr>"

definition example_archive :: Archive where
  "example_archive =
     archive_with ''word/settings.xml''
       (Document (Element ''w:settings'' []
          [Element ''w:trackChanges'' [(''w:val'', ''1'')] []]))"

section \<open>Parameter checking (src/utilities/parameter-checking.ts)\<close>

text \<open>
  Modelled from the spec: \<open>checkForForbiddenParameters\<close> and \<open>isValidNumber\<close>
  (utilities/parameter-checking.ts) are missing; only their test is at hand. By sections
  7 and 8 of the spec a numeric field that holds a not-a-number value, anywhere in a
  nested props object, is rejected with \<open>InvalidParameterError\<close> and the path to the
  field, eagerly (at the first such field); an object whose numeric fields all hold
  valid numbers is accepted (the test expects \<open>true\<close>). The test's third argument is not
  described by the spec and is left out.
\<close>

datatype parameter_error = InvalidParameterError "string list"

text \<open>
  Modelled from the spec: \<open>isValidNumber\<close> (missing) holds of a number that is not
  \<open>NaN\<close>, the spec's "valid number".
\<close>

fun isValidNumber :: "jsval \<Rightarrow> bool" where
  "isValidNumber (Number NaN) = False"
| "isValidNumber (Number (Num x)) = True"
| "isValidNumber v = False"

text \<open>
  Modelled from the spec: the search of \<open>checkForForbiddenParameters\<close> (missing) through
  the nested object, fields in their order, for the first numeric field the callback does
  not accept; the result is the path of field names to it.
\<close>

fun forbidden_path :: "(jsval \<Rightarrow> bool) \<Rightarrow> string list \<Rightarrow> jsval \<Rightarrow> string list option"
  and forbidden_field ::
    "(jsval \<Rightarrow> bool) \<Rightarrow> string list \<Rightarrow> (string \<times> jsval) list \<Rightarrow> string list option"
where
  "forbidden_path callback path (Number n) =
     (if callback (Number n) then None else Some path)"
| "forbidden_path callback path (Object fs) = forbidden_field callback path fs"
| "forbidden_path callback path v = None"
| "forbidden_field callback path [] = None"
| "forbidden_field callback path (kv # rest) =
     (case forbidden_path callback (path @ [fst kv]) (snd kv) of
        Some p \<Rightarrow> Some p
      | None \<Rightarrow> forbidden_field callback path rest)"

text \<open>
  Modelled from the spec: \<open>checkForForbiddenParameters(objectToCheck, callback)\<close>
  (missing) throws \<open>InvalidParameterError\<close> with that path, or returns \<open>true\<close>.
\<close>

definition checkForForbiddenParameters ::
  "jsval \<Rightarrow> (jsval \<Rightarrow> bool) \<Rightarrow> parameter_error + bool" where
  "checkForForbiddenParameters objectToCheck callback =
     (case forbidden_path callback [] objectToCheck of
        Some path \<Rightarrow> Inl (InvalidParameterError path)
      | None \<Rightarrow> Inr True)"

text \<open>The numeric fields of a nested object, wherever they are.\<close>

fun numeric_fields :: "jsval \<Rightarrow> number list" where
  "numeric_fields (Number n) = [n]"
| "numeric_fields (Object fs) = concat (map (\<lambda>kv. numeric_fields (snd kv)) fs)"
| "numeric_fields v = []"

text \<open>The four objects of the test.\<close>

definition passingInnerObject :: jsval where
  "passingInnerObject =
     Object [(''first'', String ''darkness''), (''second'', Number (Num 4)),
             (''third'', Boolean False)]"

definition failingInnerObject :: jsval where
  "failingInnerObject =
     Object [(''first'', String ''darkness''), (''second'', Number NaN),
             (''third'', Boolean True)]"

definition passingOuterObject :: jsval where
  "passingOuterObject =
     Object [(''first'', Number (Num 164)), (''second'', Number (Num 123)),
             (''third'', passingInnerObject), (''fourth'', Number (Num 7))]"

definition failingOuterObject :: jsval where
  "failingOuterObject =
     Object [(''first'', Number (Num 1)), (''second'', Number (Num 2)),
             (''third'', failingInnerObject), (''fourth'', Number (Num 3))]"

section \<open>Properties of the repair\<close>

lemma walk_valid: "list_all valid_tree (walk xs)"
proof (induction xs rule: walk.induct)
  case 1
  show ?case by simp
next
  case (2 s rest)
  then show ?case by simp
next
  case (3 c p ch rest)
  show ?case
  proof (cases "split_invalid c (walk ch)")
    case None
    from split_invalid_None[OF None] 3(1)
    have "list_all (\<lambda>x. valid_child c x \<and> valid_tree x) (walk ch)"
      by (simp add: list_all_iff)
    with None 3(3) show ?thesis by simp
  next
    case (Some t)
    obtain pre bad post where t: "t = (pre, bad, post)" by (cases t) auto
    from split_invalid_Some[OF Some[unfolded t]]
    have eq: "walk ch = pre @ bad # post" and pre: "list_all (valid_child c) pre" by auto
    from 3(1) eq have "list_all valid_tree pre" by simp
    with pre have "list_all (\<lambda>x. valid_child c x \<and> valid_tree x) pre"
      by (simp add: list_all_iff)
    with 3(4)[OF Some[unfolded t] refl refl] Some t show ?thesis by simp
  qed
qed

lemma bump_Inr_walk: "bumpInvalidChildrenToAncestry t = Inr t' \<Longrightarrow> walk [t] = [t']"
  by (cases "walk [t]") (auto simp: bumpInvalidChildrenToAncestry_def Let_def split: if_splits)



lemma walk_length: "length xs \<le> length (walk xs)"
proof (induction xs rule: walk.induct)
  case 1
  show ?case by simp
next
  case (2 s rest)
  then show ?case by simp
next
  case (3 c p ch rest)
  show ?case
  proof (cases "split_invalid c (walk ch)")
    case None
    with 3(3) show ?thesis by simp
  next
    case (Some u)
    obtain pre bad post where u: "u = (pre, bad, post)" by (cases u) auto
    from 3(4)[OF Some[unfolded u] refl refl] Some u show ?thesis by simp
  qed
qed

lemma walk_one_or_three: "length (walk [t]) = 1 \<or> 3 \<le> length (walk [t])"
proof (cases t)
  case (Str s)
  then show ?thesis by simp
next
  case (Node c p ch)
  show ?thesis
  proof (cases "split_invalid c (walk ch)")
    case None
    with Node show ?thesis by simp
  next
    case (Some u)
    obtain pre bad post where u: "u = (pre, bad, post)" by (cases u) auto
    have "2 \<le> length (walk [bad, Node c p post])"
      using walk_length[of "[bad, Node c p post]"] by simp
    with Node Some u show ?thesis by simp
  qed
qed



lemmas tree_defs = example_tree_def example_repaired_def stranded_tree_def
  DocumentC_def ParagraphC_def TableC_def TextC_def

lemma example_tree_run: "bumpInvalidChildrenToAncestry example_tree = Inr example_repaired"
  by (simp add: bumpInvalidChildrenToAncestry_def tree_defs)

lemma stranded_tree_walk:
  "walk [stranded_tree] =
     [Node ParagraphC () [Node TextC () [Str ''a'']], Node TableC () [], Node ParagraphC () []]"
  by (simp add: tree_defs)

lemma stranded_tree_run: "bumpInvalidChildrenToAncestry stranded_tree = Inl DXE030"
  by (simp add: bumpInvalidChildrenToAncestry_def stranded_tree_walk)

text \<open>
  Claim C2. Whenever \<open>bumpInvalidChildrenToAncestry\<close> returns a tree, that tree satisfies
  the accepted-children invariant everywhere: every child of every node is either a node
  whose component type is in the parent component's \<open>children\<close> list, or a string under a
  component with \<open>mixed\<close> set.
\<close>

theorem bump_accepted_children:
  "bumpInvalidChildrenToAncestry t = Inr t' \<Longrightarrow> valid_tree t'"
proof -
  assume "bumpInvalidChildrenToAncestry t = Inr t'"
  then have "walk [t] = [t']" by (rule bump_Inr_walk)
  moreover have "list_all valid_tree (walk [t])" by (rule walk_valid)
  ultimately show ?thesis by simp
qed

theorem bump_accepted_children_witness:
  "bumpInvalidChildrenToAncestry example_tree = Inr example_repaired
   \<and> valid_tree example_repaired"
proof -
  have run: "bumpInvalidChildrenToAncestry example_tree = Inr example_repaired"
    by (rule example_tree_run)
  from bump_accepted_children[OF run] have "valid_tree example_repaired" .
  with run show ?thesis by (rule conjI)
qed






text \<open>
  Claim C4. On every input tree \<open>bumpInvalidChildrenToAncestry\<close> ends (\<open>walk\<close> is a total
  function) and either returns a node, which is then the only element the walk left at the
  top level, or throws the error DXE030, and then the walk left three or more top-level
  elements (the root was split). The walk never leaves none or two.
\<close>

theorem bump_one_root_or_error:
  "(case bumpInvalidChildrenToAncestry t of
      Inr r \<Rightarrow> walk [t] = [r]
    | Inl e \<Rightarrow> e = DXE030 \<and> 3 \<le> length (walk [t]))"
  using walk_one_or_three[of t]
  by (cases "walk [t]") (auto simp: bumpInvalidChildrenToAncestry_def Let_def)

theorem bump_one_root_or_error_witness:
  "bumpInvalidChildrenToAncestry example_tree = Inr example_repaired
   \<and> walk [example_tree] = [example_repaired]
   \<and> bumpInvalidChildrenToAncestry stranded_tree = Inl DXE030
   \<and> length (walk [stranded_tree]) = 3"
proof -
  have 1: "bumpInvalidChildrenToAncestry example_tree = Inr example_repaired"
    by (rule example_tree_run)
  have 2: "bumpInvalidChildrenToAncestry stranded_tree = Inl DXE030"
    by (rule stranded_tree_run)
  from bump_one_root_or_error[of example_tree] 1
  have 3: "walk [example_tree] = [example_repaired]" by simp
  have 4: "length (walk [stranded_tree]) = 3" by (simp add: stranded_tree_walk)
  from 1 2 3 4 show ?thesis by simp
qed

section \<open>Properties of the flattening\<close>

lemma foldl_flatten_declared:
  assumes step: "\<And>c flat. c \<in> set items \<Longrightarrow> list_all truthy flat \<Longrightarrow>
             recursiveFlattenArray (Inr flat) c = Inr (flat @ filter truthy (declared c))"
    and flat: "list_all truthy flat"
  shows "foldl recursiveFlattenArray (Inr flat) items
           = Inr (flat @ filter truthy (concat (map declared items)))"
  using assms
proof (induction items arbitrary: flat)
  case Nil
  then show ?case by simp
next
  case (Cons a items)
  have 1: "recursiveFlattenArray (Inr flat) a = Inr (flat @ filter truthy (declared a))"
    using Cons.prems by simp
  have 2: "list_all truthy (flat @ filter truthy (declared a))"
    using Cons.prems(2) by (auto simp: list_all_iff)
  have "foldl recursiveFlattenArray (Inr (flat @ filter truthy (declared a))) items
          = Inr ((flat @ filter truthy (declared a)) @ filter truthy (concat (map declared items)))"
    using Cons.prems(1) 2 by (intro Cons.IH) auto
  with 1 show ?case by simp
qed

lemma flatten_declared:
  "no_rejection c \<Longrightarrow> list_all truthy flat \<Longrightarrow>
     recursiveFlattenArray (Inr flat) c = Inr (flat @ filter truthy (declared c))"
proof (induction c arbitrary: flat rule: child.induct)
  case (Item v)
  then show ?case by (simp add: list_all_iff filter_id_conv)
next
  case (Array items)
  have "foldl recursiveFlattenArray (Inr []) items
          = Inr ([] @ filter truthy (concat (map declared items)))"
    by (rule foldl_flatten_declared) (use Array in \<open>auto simp: list_all_iff\<close>)
  then show ?case by simp
next
  case (Fulfilled t c)
  then show ?case by simp
next
  case (Rejected t r)
  then show ?case by simp
qed

lemma ensure_declared:
  assumes "no_rejection c"
  shows "ensureFlatResolvedArray c = Inr (filter truthy (declared c))"
proof -
  have "recursiveFlattenArray (Inr []) c = Inr (filter truthy (declared c))"
    using flatten_declared[of c "[]"] assms by simp
  moreover have "c = Item Undefined \<or> c = Item Null \<Longrightarrow> filter truthy (declared c) = []"
    by auto
  ultimately show ?thesis
    by (auto simp: ensureFlatResolvedArray_def)
qed

lemma retime_declared: "declared (retime f c) = declared c"
  by (induction c rule: child.induct) (auto intro: arg_cong[where f = concat])

lemma retime_no_rejection: "no_rejection (retime f c) = no_rejection c"
  by (induction c rule: child.induct) (auto simp: list_all_iff)

lemma foldl_flatten_Inr:
  assumes step: "\<And>c flat ys. c \<in> set items \<Longrightarrow> recursiveFlattenArray flat c = Inr ys \<Longrightarrow>
             no_rejection c \<and> (\<exists>xs. flat = Inr xs)"
    and res: "foldl recursiveFlattenArray acc items = Inr zs"
  shows "list_all no_rejection items \<and> (\<exists>xs. acc = Inr xs)"
  using assms
proof (induction items arbitrary: acc)
  case Nil
  then show ?case by simp
next
  case (Cons a items)
  from Cons.prems(2) have r: "foldl recursiveFlattenArray (recursiveFlattenArray acc a) items = Inr zs"
    by simp
  have ih: "list_all no_rejection items \<and> (\<exists>xs. recursiveFlattenArray acc a = Inr xs)"
    using Cons.prems(1) r by (intro Cons.IH) auto
  then obtain xs where "recursiveFlattenArray acc a = Inr xs" by blast
  with Cons.prems(1)[of a acc xs] have "no_rejection a \<and> (\<exists>xs. acc = Inr xs)" by simp
  with ih show ?case by simp
qed

lemma flatten_Inr:
  "recursiveFlattenArray flat c = Inr ys \<Longrightarrow> no_rejection c \<and> (\<exists>xs. flat = Inr xs)"
proof (induction c arbitrary: flat ys rule: child.induct)
  case (Item v)
  then show ?case by (cases flat) auto
next
  case (Array items)
  from Array.prems obtain xs where f: "flat = Inr xs" by (cases flat) auto
  with Array.prems obtain zs where z: "foldl recursiveFlattenArray (Inr []) items = Inr zs"
    by (cases "foldl recursiveFlattenArray (Inr []) items") auto
  have "list_all no_rejection items \<and> (\<exists>xs. (Inr [] :: jsval + jsval list) = Inr xs)"
    by (rule foldl_flatten_Inr[OF _ z]) (use Array.IH in blast)
  with f show ?case by simp
next
  case (Fulfilled t c)
  then show ?case by simp
next
  case (Rejected t r)
  then show ?case by simp
qed

lemma ensure_Inr_no_rejection:
  assumes "ensureFlatResolvedArray c = Inr ys"
  shows "no_rejection c"
proof (cases "c = Item Undefined \<or> c = Item Null")
  case True
  then show ?thesis by auto
next
  case False
  with assms have "recursiveFlattenArray (Inr []) c = Inr ys"
    by (simp add: ensureFlatResolvedArray_def)
  then show ?thesis using flatten_Inr by blast
qed

lemma example_children_run:
  "ensureFlatResolvedArray example_children
     = Inr [String ''a'', String ''b'', Number (Num 3)]"
  by (simp add: ensureFlatResolvedArray_def example_children_def)

lemma example_children_declared:
  "declared example_children
     = [String ''a'', Number (Num 0), String ''b'', Boolean False, Null, String [], Undefined,
        Number (Num 3)]"
  by (simp add: example_children_def)

text \<open>
  Claim C7. For children none of whose promises rejects, \<open>ensureFlatResolvedArray\<close> returns
  the children in the order they are declared (arrays and promises opened up, depth
  first, left to right), without the falsy ones. The list does not depend on when the
  promises settle: the same children with any other settle times give the same list.
\<close>

theorem ensureFlatResolvedArray_declaration_order:
  "no_rejection children \<Longrightarrow>
     ensureFlatResolvedArray children = Inr (filter truthy (declared children))
     \<and> ensureFlatResolvedArray (retime f children) = ensureFlatResolvedArray children"
proof -
  assume nr: "no_rejection children"
  then have 1: "ensureFlatResolvedArray children = Inr (filter truthy (declared children))"
    by (rule ensure_declared)
  from nr have "no_rejection (retime f children)" by (simp add: retime_no_rejection)
  then have "ensureFlatResolvedArray (retime f children)
               = Inr (filter truthy (declared (retime f children)))"
    by (rule ensure_declared)
  with 1 have 2: "ensureFlatResolvedArray (retime f children) = ensureFlatResolvedArray children"
    by (simp add: retime_declared)
  from 1 2 show ?thesis by (rule conjI)
qed

theorem ensureFlatResolvedArray_declaration_order_witness:
  "no_rejection example_children
   \<and> ensureFlatResolvedArray example_children
       = Inr [String ''a'', String ''b'', Number (Num 3)]
   \<and> filter truthy (declared example_children) = [String ''a'', String ''b'', Number (Num 3)]
   \<and> ensureFlatResolvedArray (retime (\<lambda>t. 10 - t) example_children)
       = ensureFlatResolvedArray example_children"
proof -
  have nr: "no_rejection example_children" by (simp add: example_children_def)
  have d: "filter truthy (declared example_children) = [String ''a'', String ''b'', Number (Num 3)]"
    by (simp add: example_children_declared)
  from ensureFlatResolvedArray_declaration_order[OF nr, of "\<lambda>t. 10 - t"] nr d
  show ?thesis by simp
qed

text \<open>
  Claim C10. Whenever \<open>ensureFlatResolvedArray\<close> returns a list, it is the declared children
  without the falsy ones: no element of the list is falsy, so \<open>false\<close>, \<open>0\<close>, the empty
  string, \<open>null\<close> and \<open>undefined\<close> are never in it, however deep in arrays or promises
  they were given.
\<close>

theorem ensureFlatResolvedArray_drops_falsy:
  "ensureFlatResolvedArray children = Inr ys \<Longrightarrow>
     ys = filter truthy (declared children)
     \<and> list_all truthy ys
     \<and> Boolean False \<notin> set ys \<and> Number (Num 0) \<notin> set ys \<and> String [] \<notin> set ys
     \<and> Null \<notin> set ys \<and> Undefined \<notin> set ys"
proof -
  assume r: "ensureFlatResolvedArray children = Inr ys"
  then have "no_rejection children" by (rule ensure_Inr_no_rejection)
  then have "ensureFlatResolvedArray children = Inr (filter truthy (declared children))"
    by (rule ensure_declared)
  with r have ys: "ys = filter truthy (declared children)" by simp
  then have t: "list_all truthy ys" by (simp add: list_all_iff)
  then have "\<And>v. \<not> truthy v \<Longrightarrow> v \<notin> set ys" by (auto simp: list_all_iff)
  then have "Boolean False \<notin> set ys" "Number (Num 0) \<notin> set ys" "String [] \<notin> set ys"
    "Null \<notin> set ys" "Undefined \<notin> set ys" by simp_all
  with ys t show ?thesis by simp
qed

theorem ensureFlatResolvedArray_drops_falsy_witness:
  "ensureFlatResolvedArray example_children = Inr [String ''a'', String ''b'', Number (Num 3)]
   \<and> declared example_children
       = [String ''a'', Number (Num 0), String ''b'', Boolean False, Null, String [], Undefined,
          Number (Num 3)]
   \<and> [String ''a'', String ''b'', Number (Num 3)] = filter truthy (declared example_children)
   \<and> list_all truthy [String ''a'', String ''b'', Number (Num 3)]"
proof -
  have run: "ensureFlatResolvedArray example_children
               = Inr [String ''a'', String ''b'', Number (Num 3)]"
    by (rule example_children_run)
  from ensureFlatResolvedArray_drops_falsy[OF run] run example_children_declared
  show ?thesis by blast
qed

section \<open>Properties of the component codecs\<close>

lemmas codec_defs = example_externals_def nested_addition_def inner_addition_def
  example_toISOString_def example_parseDate_def example_getChangeInformation_def
  xpath_children_def xpath_attribute_def TextAddition_children_def Paragraph_children_def
  matchesNode_byName_def TextAddition_matchesNode_def

lemma createChildComponentsFromNodes_length:
  "createChildComponentsFromNodes ext names nodes = Inr cs \<Longrightarrow> length cs = length nodes"
  by (induction nodes arbitrary: cs) (auto split: sum.splits)

lemma nested_addition_run:
  "TextAddition_fromNode example_externals (toNode example_externals [] nested_addition)
     = Inr (TextAddition \<lparr>id_attr = ''1'', author = ''A'', date = 1577836800000\<rparr> [])"
  by (simp add: codec_defs)

text \<open>
  Claim C1. The claim is that decoding what \<open>toNode\<close> wrote gives the node back, for a
  \<open>TextAddition\<close> with any accepted children. The code does not do that: a \<open>TextAddition\<close>
  that has a \<open>TextAddition\<close> among its children never comes back with its children,
  whatever the classes not at hand do. \<open>toNode\<close> writes that child as an element \<open>w:ins\<close>, and
  \<open>fromNode\<close> hands only the \<open>w:r\<close> children to \<open>createChildComponentsFromNodes\<close>, so
  fewer children come back than went in. (\<open>Paragraph.fromNode\<close>, for the same accepted
  children, selects \<open>w:r | w:del | w:ins\<close>.)
\<close>

theorem TextAddition_roundtrip_loses_nested_addition:
  assumes "TextAddition q cs \<in> set children"
  shows "map_sum (\<lambda>e. e) children_of
           (TextAddition_fromNode ext (toNode ext ancestry (TextAddition p children)))
         \<noteq> Inr children"
proof
  let ?enc = "map (toNode ext (TextAddition p children # ancestry)) children"
  let ?runs = "filter (\<lambda>n. is_element n \<and> nodeName n \<in> set [''w:r'']) ?enc"
  assume "map_sum (\<lambda>e. e) children_of
            (TextAddition_fromNode ext (toNode ext ancestry (TextAddition p children)))
          = Inr children"
  then have "createChildComponentsFromNodes ext TextAddition_children ?runs = Inr children"
    by (auto simp: xpath_children_def split: sum.splits)
  then have len: "length children = length ?runs"
    by (rule createChildComponentsFromNodes_length)
  let ?y = "toNode ext (TextAddition p children # ancestry) (TextAddition q cs)"
  have y: "?y \<in> set ?enc"
    using assms by (simp only: set_map image_eqI)
  have "nodeName ?y = ''w:ins''" by simp
  then have ny: "\<not> (is_element ?y \<and> nodeName ?y \<in> set [''w:r''])" by simp
  have "length ?runs < length ?enc"
    using y ny by (rule length_filter_less)
  with len show False by simp
qed

theorem TextAddition_roundtrip_loses_nested_addition_witness:
  "inner_addition \<in> set [inner_addition]
   \<and> toNode example_externals [] nested_addition =
       Element ''w:ins''
         [(''w:id'', ''1''), (''w:author'', ''A''), (''w:date'', ''2020-01-01T00:00:00.000Z'')]
         [Element ''w:ins''
           [(''w:id'', ''2''), (''w:author'', ''B''), (''w:date'', ''2020-01-01T00:00:00.000Z'')]
           []]
   \<and> TextAddition_fromNode example_externals (toNode example_externals [] nested_addition)
       = Inr (TextAddition \<lparr>id_attr = ''1'', author = ''A'', date = 1577836800000\<rparr> [])
   \<and> map_sum (\<lambda>e. e) children_of
         (TextAddition_fromNode example_externals (toNode example_externals [] nested_addition))
       \<noteq> Inr [inner_addition]"
proof -
  have m: "TextAddition \<lparr>id_attr = ''2'', author = ''B'', date = 1577836800000\<rparr> []
             \<in> set [inner_addition :: (string, string) component]"
    by (simp add: inner_addition_def)
  have e: "toNode example_externals [] nested_addition =
       Element ''w:ins''
         [(''w:id'', ''1''), (''w:author'', ''A''), (''w:date'', ''2020-01-01T00:00:00.000Z'')]
         [Element ''w:ins''
           [(''w:id'', ''2''), (''w:author'', ''B''), (''w:date'', ''2020-01-01T00:00:00.000Z'')]
           []]"
    by (simp add: codec_defs)
  have n: "map_sum (\<lambda>e. e) children_of
         (TextAddition_fromNode example_externals (toNode example_externals [] nested_addition))
       \<noteq> Inr [inner_addition]"
    using TextAddition_roundtrip_loses_nested_addition[OF m, of example_externals "[]"
        "\<lparr>id_attr = ''1'', author = ''A'', date = 1577836800000\<rparr>"]
    unfolding nested_addition_def .
  from e nested_addition_run n show ?thesis by simp
qed






section \<open>Properties of the settings part\<close>

lemma Settings_query_toNode:
  "Settings_query env (Settings_toNode env this) = Inr (is_on_off_enabled env [])"
  by (simp add: Settings_query_def Settings_toNode_def xpath_children_def)

lemma readXml_archive_with: "readXml (archive_with loc doc) loc = Inr doc"
  by (simp add: archive_with_def)

text \<open>
  Claim C5. The claim is that a written settings part reads back with the flag it was
  written with. The code does not do that: \<open>toNode\<close> writes the element
  \<open>w:trackRevisions\<close> and \<open>fromArchive\<close> asks for \<open>w:trackChanges/@w:val\<close>, which no written
  part has. What is read back is \<open>ooxml:is-on-off-enabled\<close> of the empty sequence, the
  same for a part written with \<open>true\<close> and for one written with \<open>false\<close>, so at least one of
  the two flags does not come back.
\<close>

theorem Settings_roundtrip_flag:
  "map_sum (\<lambda>e. e) isTrackChangesEnabled (Settings_roundtrip env this)
     = Inr (is_on_off_enabled env [])"
  by (simp add: Settings_roundtrip_def Settings_fromArchive_def Let_def
      readXml_archive_with Settings_query_toNode)

theorem Settings_roundtrip_flag_witness:
  "isTrackChangesEnabled enabled_settings
   \<and> Settings_toNode example_environment enabled_settings
       = Document (Element ''w:settings'' [(''xmlns:w'', ''w'')]
           [Element ''w:trackRevisions'' [] []])
   \<and> map_sum (\<lambda>e. e) isTrackChangesEnabled
        (Settings_roundtrip example_environment enabled_settings) = Inr False"
proof -
  have 1: "isTrackChangesEnabled enabled_settings" by (simp add: enabled_settings_def)
  have 2: "Settings_toNode example_environment enabled_settings
       = Document (Element ''w:settings'' [(''xmlns:w'', ''w'')]
           [Element ''w:trackRevisions'' [] []])"
    by (simp add: Settings_toNode_def enabled_settings_def example_environment_def)
  have 3: "is_on_off_enabled example_environment [] = False"
    by (simp add: example_environment_def)
  from Settings_roundtrip_flag[of example_environment enabled_settings] 1 2 3
  show ?thesis by simp
qed

text \<open>
  Claim C8. When \<open>Relationships.fromArchive\<close> throws for the \<open>.rels\<close> file next to the
  part, \<open>Settings.fromArchive\<close> writes one line with \<open>console.error\<close>, the text
  "Warning, relationships could not be resolved", a line break and the stack (or, without
  one, the message) of what was thrown, and goes on: it fails only if reading or querying
  the part itself fails, and otherwise builds the \<open>Settings\<close> with the relationship set
  that has no relationships (at the location of the \<open>.rels\<close> file) and the flag the query
  gives. The flag (or the failure) is the same as with a \<open>.rels\<close> file that can be read.
\<close>

theorem Settings_fromArchive_without_relationships:
  assumes "Relationships_fromArchive env archive
             (dirname env loc @ ''/_rels/'' @ basename env loc @ ''.rels'') = Inl error"
  shows "fst (Settings_fromArchive env archive loc)
      = [''Warning, relationships could not be resolved'' @ [CHR 0x0A]
           @ (if stack error \<noteq> [] then stack error else message error)]
    \<and> snd (Settings_fromArchive env archive loc) =
        (case readXml archive loc of
           Inl e \<Rightarrow> Inl e
         | Inr doc \<Rightarrow>
            (case Settings_query env doc of
               Inl e \<Rightarrow> Inl e
             | Inr flag \<Rightarrow>
                Inr \<lparr>location = loc,
                     relationships =
                       \<lparr>rels_location = dirname env loc @ ''/_rels/'' @ basename env loc @ ''.rels'',
                        meta = []\<rparr>,
                     isTrackChangesEnabled = flag\<rparr>))
    \<and> map_sum (\<lambda>e. e) isTrackChangesEnabled (snd (Settings_fromArchive env archive loc))
        = map_sum (\<lambda>e. e) isTrackChangesEnabled
            (snd (Settings_fromArchive
                    (env\<lparr>Relationships_fromArchive := \<lambda>a l. Inr r\<rparr>) archive loc))"
  using assms
  by (simp add: Settings_fromArchive_def Let_def Settings_query_def relationshipsLocation_def
      new_Relationships_def split: sum.splits document.splits)

lemmas settings_defs = example_environment_def example_archive_def archive_with_def
  relationshipsLocation_def not_found_def example_Relationships_fromArchive_def

theorem Settings_fromArchive_without_relationships_witness:
  "Relationships_fromArchive example_environment example_archive
     (dirname example_environment ''word/settings.xml'' @ ''/_rels/''
        @ basename example_environment ''word/settings.xml'' @ ''.rels'')
     = Inl \<lparr>stack = [], message = ''file not found''\<rparr>
   \<and> Settings_fromArchive example_environment example_archive ''word/settings.xml''
       = ([''Warning, relationships could not be resolved'' @ [CHR 0x0A] @ ''file not found''],
          Inr \<lparr>location = ''word/settings.xml'',
               relationships = \<lparr>rels_location = ''word/_rels/settings.xml.rels'', meta = []\<rparr>,
               isTrackChangesEnabled = True\<rparr>)"
proof -
  have l: "dirname example_environment ''word/settings.xml'' @ ''/_rels/''
        @ basename example_environment ''word/settings.xml'' @ ''.rels''
        = ''word/_rels/settings.xml.rels''"
    by (simp add: example_environment_def)
  have h: "Relationships_fromArchive example_environment example_archive
     (dirname example_environment ''word/settings.xml'' @ ''/_rels/''
        @ basename example_environment ''word/settings.xml'' @ ''.rels'')
     = Inl \<lparr>stack = [], message = ''file not found''\<rparr>"
    unfolding l by (simp add: settings_defs)
  have r: "readXml example_archive ''word/settings.xml''
             = Inr (Document (Element ''w:settings'' []
                 [Element ''w:trackChanges'' [(''w:val'', ''1'')] []]))"
    by (simp add: example_archive_def archive_with_def)
  have q: "Settings_query example_environment (Document (Element ''w:settings'' []
                 [Element ''w:trackChanges'' [(''w:val'', ''1'')] []])) = Inr True"
    by (simp add: Settings_query_def xpath_children_def xpath_attribute_def example_environment_def)
  from Settings_fromArchive_without_relationships[OF h, of "new_Relationships []"]
  have "fst (Settings_fromArchive example_environment example_archive ''word/settings.xml'')
          = [''Warning, relationships could not be resolved'' @ [CHR 0x0A] @ ''file not found'']
      \<and> snd (Settings_fromArchive example_environment example_archive ''word/settings.xml'')
          = Inr \<lparr>location = ''word/settings.xml'',
               relationships = \<lparr>rels_location = ''word/_rels/settings.xml.rels'', meta = []\<rparr>,
               isTrackChangesEnabled = True\<rparr>"
    unfolding l by (simp add: r q)
  with h show ?thesis by (simp add: prod_eq_iff)
qed

section \<open>Properties of the parameter check\<close>

lemma forbidden_path_None:
  "(forbidden_path isValidNumber path v = None) = (NaN \<notin> set (numeric_fields v))"
  "(forbidden_field isValidNumber path fs = None)
     = (NaN \<notin> set (concat (map (\<lambda>kv. numeric_fields (snd kv)) fs)))"
proof (induction isValidNumber path v and isValidNumber path fs
    rule: forbidden_path_forbidden_field.induct)
  case (1 path n)
  then show ?case by (cases n) auto
qed (auto split: option.splits)

text \<open>
  Claim C9. \<open>checkForForbiddenParameters\<close> with \<open>isValidNumber\<close> throws an
  \<open>InvalidParameterError\<close> when some numeric field of the nested object, at any depth, is
  \<open>NaN\<close>, and returns \<open>true\<close> when none is.
\<close>

theorem checkForForbiddenParameters_rejects_exactly_NaN:
  "(NaN \<in> set (numeric_fields props) \<longrightarrow>
      (\<exists>path. checkForForbiddenParameters props isValidNumber = Inl (InvalidParameterError path)))
   \<and> (NaN \<notin> set (numeric_fields props) \<longrightarrow>
        checkForForbiddenParameters props isValidNumber = Inr True)"
  using forbidden_path_None(1)[of "[]" props]
  by (cases "forbidden_path isValidNumber [] props")
     (auto simp: checkForForbiddenParameters_def)

lemmas object_defs = passingOuterObject_def passingInnerObject_def
  failingOuterObject_def failingInnerObject_def

theorem checkForForbiddenParameters_rejects_exactly_NaN_witness:
  "NaN \<in> set (numeric_fields failingOuterObject)
   \<and> checkForForbiddenParameters failingOuterObject isValidNumber
       = Inl (InvalidParameterError [''third'', ''second''])
   \<and> NaN \<notin> set (numeric_fields passingOuterObject)
   \<and> checkForForbiddenParameters passingOuterObject isValidNumber = Inr True"
proof -
  have 1: "NaN \<in> set (numeric_fields failingOuterObject)" by (simp add: object_defs)
  have 2: "NaN \<notin> set (numeric_fields passingOuterObject)" by (simp add: object_defs)
  have 3: "checkForForbiddenParameters failingOuterObject isValidNumber
       = Inl (InvalidParameterError [''third'', ''second''])"
    by (simp add: object_defs checkForForbiddenParameters_def)
  from checkForForbiddenParameters_rejects_exactly_NaN[of passingOuterObject] 2
  have 4: "checkForForbiddenParameters passingOuterObject isValidNumber = Inr True" by blast
  from 1 2 3 4 show ?thesis by blast
qed

end
